theory Spec2Isabelle
  imports Complex_Main
begin

section \<open>Python values and exceptions\<close>

text \<open>
  Python floats are modelled by the real numbers their literals denote. The code only
  compares them and computes \<open>1.0 - x\<close> on the dyadic fractions of \<open>lv2dc\<close>, both of
  which are exact on floats; NaN is outside the model.
\<close>

datatype py_exception =
    KeyError string
  | NoSectionError string
  | NoOptionError string string
  | ValueError
  | ParsingError
  | OtherException string

section \<open>misc.py: the configuration\<close>

text \<open>
  The \<open>ConfigParser\<close> object after \<open>cfg.read\<close>: its three typed getters, each of which
  either returns a value or raises (a missing section or option, a value that does not
  parse, an interpolation error, ...).
\<close>

record config_parser =
  cfg_get :: "string \<Rightarrow> string \<Rightarrow> py_exception + string"
  cfg_getfloat :: "string \<Rightarrow> string \<Rightarrow> py_exception + real"
  cfg_getboolean :: "string \<Rightarrow> string \<Rightarrow> py_exception + bool"

text \<open>\<open>cfg.get(section, option, fallback=fb)\<close>: a missing section or option gives \<open>fb\<close>.\<close>

definition cfg_get_fallback ::
  "config_parser \<Rightarrow> string \<Rightarrow> string \<Rightarrow> string \<Rightarrow> py_exception + string" where
  "cfg_get_fallback cfg sec opt fb =
     (case cfg_get cfg sec opt of
        Inl (NoSectionError _) \<Rightarrow> Inr fb
      | Inl (NoOptionError _ _) \<Rightarrow> Inr fb
      | r \<Rightarrow> r)"

text \<open>\<open>str.split(sep)\<close> for a one-character separator.\<close>

fun split :: "char \<Rightarrow> string \<Rightarrow> string list" where
  "split sep [] = [[]]"
| "split sep (x # xs) =
     (if x = sep then [] # split sep xs
      else (case split sep xs of
              [] \<Rightarrow> [[x]]
            | w # ws \<Rightarrow> (x # w) # ws))"

datatype disk_val = DiskStr string | DiskList "string list"

text \<open>
  The dictionary \<open>conf\<close>: one field per section. \<open>conf['fan']\<close>, \<open>conf['key']\<close>,
  \<open>conf['time']\<close> and \<open>conf['oled']\<close> are dictionaries from option names to values;
  \<open>conf['slider']\<close> holds a boolean under \<open>'auto'\<close> and a number under \<open>'time'\<close>.
  \<open>None\<close> is a key that has not been assigned.
\<close>

record conf =
  conf_fan :: "string \<rightharpoonup> real"
  conf_key :: "string \<rightharpoonup> string"
  conf_time :: "string \<rightharpoonup> real"
  conf_slider_auto :: "bool option"
  conf_slider_time :: "real option"
  conf_oled :: "string \<rightharpoonup> bool"
  conf_disk :: "disk_val option"

text \<open>\<open>conf = defaultdict(dict)\<close>\<close>

definition conf_empty :: conf where
  "conf_empty =
     \<lparr>conf_fan = Map.empty, conf_key = Map.empty, conf_time = Map.empty,
      conf_slider_auto = None, conf_slider_time = None, conf_oled = Map.empty,
      conf_disk = None\<rparr>"

text \<open>
  A statement of the \<open>try\<close> body: it evaluates its right-hand side, which may raise, and
  then assigns. When the right-hand side raises, nothing is assigned.
\<close>

type_synonym stmt = "conf \<Rightarrow> py_exception + conf"

definition set_fan :: "string \<Rightarrow> py_exception + real \<Rightarrow> stmt" where
  "set_fan k r c =
     (case r of Inl e \<Rightarrow> Inl e | Inr v \<Rightarrow> Inr (c\<lparr>conf_fan := (conf_fan c)(k \<mapsto> v)\<rparr>))"

definition set_key :: "string \<Rightarrow> py_exception + string \<Rightarrow> stmt" where
  "set_key k r c =
     (case r of Inl e \<Rightarrow> Inl e | Inr v \<Rightarrow> Inr (c\<lparr>conf_key := (conf_key c)(k \<mapsto> v)\<rparr>))"

definition set_time :: "string \<Rightarrow> py_exception + real \<Rightarrow> stmt" where
  "set_time k r c =
     (case r of Inl e \<Rightarrow> Inl e | Inr v \<Rightarrow> Inr (c\<lparr>conf_time := (conf_time c)(k \<mapsto> v)\<rparr>))"

definition set_slider_auto :: "py_exception + bool \<Rightarrow> stmt" where
  "set_slider_auto r c =
     (case r of Inl e \<Rightarrow> Inl e | Inr v \<Rightarrow> Inr (c\<lparr>conf_slider_auto := Some v\<rparr>))"

definition set_slider_time :: "py_exception + real \<Rightarrow> stmt" where
  "set_slider_time r c =
     (case r of Inl e \<Rightarrow> Inl e | Inr v \<Rightarrow> Inr (c\<lparr>conf_slider_time := Some v\<rparr>))"

definition set_oled :: "string \<Rightarrow> py_exception + bool \<Rightarrow> stmt" where
  "set_oled k r c =
     (case r of Inl e \<Rightarrow> Inl e | Inr v \<Rightarrow> Inr (c\<lparr>conf_oled := (conf_oled c)(k \<mapsto> v)\<rparr>))"

text \<open>
  \<^verbatim>\<open>extra_disks = cfg.get('disk', 'extra', fallback="")\<close>,
  \<^verbatim>\<open>if extra_disks != "": extra_disks = extra_disks.split(",")\<close>,
  \<^verbatim>\<open>conf["disk"] = extra_disks\<close>
\<close>

definition set_disk :: "py_exception + string \<Rightarrow> stmt" where
  "set_disk r c =
     (case r of
        Inl e \<Rightarrow> Inl e
      | Inr extra_disks \<Rightarrow>
          Inr (c\<lparr>conf_disk :=
                 Some (if extra_disks \<noteq> [] then DiskList (split CHR '','' extra_disks)
                       else DiskStr extra_disks)\<rparr>))"

text \<open>The statements of the \<open>try\<close> body of \<open>read_conf\<close> after \<open>cfg.read\<close>, in order.\<close>

definition try_body :: "config_parser \<Rightarrow> stmt list" where
  "try_body cfg =
     [set_fan ''lv0'' (cfg_getfloat cfg ''fan'' ''lv0''),
      set_fan ''lv1'' (cfg_getfloat cfg ''fan'' ''lv1''),
      set_fan ''lv2'' (cfg_getfloat cfg ''fan'' ''lv2''),
      set_fan ''lv3'' (cfg_getfloat cfg ''fan'' ''lv3''),
      set_key ''click'' (cfg_get cfg ''key'' ''click''),
      set_key ''twice'' (cfg_get cfg ''key'' ''twice''),
      set_key ''press'' (cfg_get cfg ''key'' ''press''),
      set_time ''twice'' (cfg_getfloat cfg ''time'' ''twice''),
      set_time ''press'' (cfg_getfloat cfg ''time'' ''press''),
      set_slider_auto (cfg_getboolean cfg ''slider'' ''auto''),
      set_slider_time (cfg_getfloat cfg ''slider'' ''time''),
      set_oled ''rotate'' (cfg_getboolean cfg ''oled'' ''rotate''),
      set_oled ''f-temp'' (cfg_getboolean cfg ''oled'' ''f-temp''),
      set_disk (cfg_get_fallback cfg ''disk'' ''extra'' [])]"

text \<open>
  Running the statements: the first one that raises stops the block; the dictionary keeps
  what the earlier statements assigned.
\<close>

fun run_try :: "stmt list \<Rightarrow> conf \<Rightarrow> conf \<times> py_exception option" where
  "run_try [] c = (c, None)"
| "run_try (st # sts) c =
     (case st c of
        Inl e \<Rightarrow> (c, Some e)
      | Inr c' \<Rightarrow> run_try sts c')"

text \<open>The \<open>except Exception\<close> block: it assigns the defaults into the same dictionary.\<close>

definition except_block :: "conf \<Rightarrow> conf" where
  "except_block c =
     c\<lparr>conf_fan := (conf_fan c)(''lv0'' \<mapsto> 35, ''lv1'' \<mapsto> 40, ''lv2'' \<mapsto> 45, ''lv3'' \<mapsto> 50),
       conf_key := (conf_key c)(''click'' \<mapsto> ''slider'', ''twice'' \<mapsto> ''switch'',
                                ''press'' \<mapsto> ''none''),
       conf_time := (conf_time c)(''twice'' \<mapsto> 0.7, ''press'' \<mapsto> 1.8),
       conf_slider_auto := Some True,
       conf_slider_time := Some 10,
       conf_oled := (conf_oled c)(''rotate'' \<mapsto> False, ''f-temp'' \<mapsto> False)\<rparr>"

text \<open>
  \<open>read_conf\<close>. Its argument is the outcome of \<open>cfg.read('/etc/rockpi-penta.conf')\<close>:
  the parser, or the exception the file's syntax raised. The function has no failing
  branch: every exception of the \<open>try\<close> body ends in the \<open>except\<close> block.
\<close>

definition read_conf :: "py_exception + config_parser \<Rightarrow> conf" where
  "read_conf rd =
     (case rd of
        Inl e \<Rightarrow> except_block conf_empty
      | Inr cfg \<Rightarrow>
          (case run_try (try_body cfg) conf_empty of
             (c, Some e) \<Rightarrow> except_block c
           | (c, None) \<Rightarrow> c))"

text \<open>The \<open>try\<close> body raised: \<open>cfg.read\<close> did, or one of the statements after it.\<close>

definition load_fails :: "py_exception + config_parser \<Rightarrow> bool" where
  "load_fails rd =
     (case rd of
        Inl e \<Rightarrow> True
      | Inr cfg \<Rightarrow> snd (run_try (try_body cfg) conf_empty) \<noteq> None)"

text \<open>The dictionary the \<open>except\<close> block leaves when nothing else is set.\<close>

definition default_conf :: conf where
  "default_conf =
     \<lparr>conf_fan = [''lv0'' \<mapsto> 35, ''lv1'' \<mapsto> 40, ''lv2'' \<mapsto> 45, ''lv3'' \<mapsto> 50],
      conf_key = [''click'' \<mapsto> ''slider'', ''twice'' \<mapsto> ''switch'', ''press'' \<mapsto> ''none''],
      conf_time = [''twice'' \<mapsto> 0.7, ''press'' \<mapsto> 1.8],
      conf_slider_auto = Some True,
      conf_slider_time = Some 10,
      conf_oled = [''rotate'' \<mapsto> False, ''f-temp'' \<mapsto> False],
      conf_disk = None\<rparr>"

section \<open>misc.py: the fan duty\<close>

definition FAN_DUTY_OFF :: real where
  "FAN_DUTY_OFF = 0"

definition FAN_DUTY_ON :: real where
  "FAN_DUTY_ON = 1"

text \<open>\<open>lv2dc\<close>, an ordered dictionary: its items in insertion order.\<close>

definition lv2dc :: "(string \<times> real) list" where
  "lv2dc = [(''lv3'', 1), (''lv2'', 0.75), (''lv1'', 0.5), (''lv0'', 0.25)]"

definition duty2dc :: "real \<Rightarrow> real" where
  "duty2dc x = 1 - x"

text \<open>
  The \<open>for lv, dc in lv2dc.items()\<close> loop of \<open>fan_temp2dc\<close> with its \<open>break\<close>;
  \<open>conf['fan'][lv]\<close> raises \<open>KeyError\<close> on a level the table does not have.
\<close>

fun fan_temp2dc_loop :: "conf \<Rightarrow> real \<Rightarrow> (string \<times> real) list \<Rightarrow> py_exception + real" where
  "fan_temp2dc_loop c t [] = Inr FAN_DUTY_OFF"
| "fan_temp2dc_loop c t ((lv, dc) # rest) =
     (case conf_fan c lv of
        None \<Rightarrow> Inl (KeyError lv)
      | Some th \<Rightarrow> if t \<ge> th then Inr dc else fan_temp2dc_loop c t rest)"

definition fan_temp2dc :: "conf \<Rightarrow> real \<Rightarrow> py_exception + real" where
  "fan_temp2dc c t =
     (case fan_temp2dc_loop c t lv2dc of
        Inl e \<Rightarrow> Inl e
      | Inr result \<Rightarrow> Inr (duty2dc result))"

text \<open>A threshold table as \<open>read_conf\<close> builds it: exactly the four levels.\<close>

definition fan_table :: "real \<Rightarrow> real \<Rightarrow> real \<Rightarrow> real \<Rightarrow> (string \<rightharpoonup> real)" where
  "fan_table v0 v1 v2 v3 = [''lv0'' \<mapsto> v0, ''lv1'' \<mapsto> v1, ''lv2'' \<mapsto> v2, ''lv3'' \<mapsto> v3]"

section \<open>misc.py: the key events\<close>

datatype edge_type = RISING_EDGE | FALLING_EDGE

definition event_single :: string where
  "event_single = ''click''"

definition event_double :: string where
  "event_double = ''twice''"

definition event_long :: string where
  "event_long = ''press''"

text \<open>The local variables of \<open>read_key_events\<close>; \<open>wait = None\<close> blocks indefinitely.\<close>

record key_state =
  click_count :: nat
  wait :: "real option"
  ignore_release :: bool

definition key_state_init :: key_state where
  "key_state_init = \<lparr>click_count = 0, wait = None, ignore_release = False\<rparr>"

text \<open>
  The branch taken when \<open>request.wait_edge_events(wait)\<close> returns false: the new state
  and the values yielded, in order.
\<close>

definition timeout_branch :: "key_state \<Rightarrow> key_state \<times> string list" where
  "timeout_branch s =
     (s\<lparr>ignore_release := (if click_count s = 0 then True else ignore_release s),
        click_count := 0,
        wait := None\<rparr>,
      (if click_count s = 0 then [event_long] else []) @
      (if click_count s = 1 then [event_single] else []))"

text \<open>The body of \<open>for event in request.read_edge_events()\<close> for one event.\<close>

definition edge_branch ::
  "real \<Rightarrow> real \<Rightarrow> key_state \<Rightarrow> edge_type \<Rightarrow> key_state \<times> string list" where
  "edge_branch time_long_press time_double_click s edge_event =
     (case edge_event of
        FALLING_EDGE \<Rightarrow>
          (if click_count s = 0 then s\<lparr>wait := Some time_long_press\<rparr> else s, [])
      | RISING_EDGE \<Rightarrow>
          if ignore_release s then (s\<lparr>ignore_release := False\<rparr>, [])
          else
            let s1 = s\<lparr>click_count := click_count s + 1\<rparr>;
                s2 = (if click_count s1 = 1 then s1\<lparr>wait := Some time_double_click\<rparr> else s1)
            in if click_count s2 = 2 \<and> wait s2 = Some time_double_click
               then (s2\<lparr>click_count := 0, wait := None\<rparr>, [event_double])
               else (s2, []))"

fun read_edge_events_loop ::
  "real \<Rightarrow> real \<Rightarrow> key_state \<Rightarrow> edge_type list \<Rightarrow> key_state \<times> string list" where
  "read_edge_events_loop tlp tdc s [] = (s, [])"
| "read_edge_events_loop tlp tdc s (e # es) =
     (case edge_branch tlp tdc s e of
        (s', ys) \<Rightarrow>
          (case read_edge_events_loop tlp tdc s' es of
             (s'', zs) \<Rightarrow> (s'', ys @ zs)))"

text \<open>
  The edge source. The line request is a list of edges with their arrival times, in
  arrival order; the classifier itself takes no time. \<open>wait_edge_events(wait)\<close>, called
  at time \<open>now\<close>, returns true at the arrival of the next edge when that edge is already
  there or arrives before \<open>now + wait\<close> (at any time when \<open>wait\<close> is \<open>None\<close>), and
  false at \<open>now + wait\<close> otherwise; \<open>read_edge_events()\<close> then returns that edge. With
  no edge left and \<open>wait = None\<close> the generator blocks for good: the run ends there, with
  the final state and the yielded values, each with the time of its \<open>yield\<close>.
\<close>

type_synonym timed_edge = "real \<times> edge_type"

definition emit :: "real \<Rightarrow> string list \<Rightarrow> (real \<times> string) list" where
  "emit now ys = map (Pair now) ys"

function key_loop ::
  "real \<Rightarrow> real \<Rightarrow> real \<Rightarrow> key_state \<Rightarrow> (real \<times> string) list \<Rightarrow> timed_edge list
     \<Rightarrow> key_state \<times> (real \<times> string) list" where
  "key_loop tlp tdc now s out [] =
     (case wait s of
        None \<Rightarrow> (s, out)
      | Some w \<Rightarrow>
          key_loop tlp tdc (now + w) (fst (timeout_branch s))
            (out @ emit (now + w) (snd (timeout_branch s))) [])"
| "key_loop tlp tdc now s out ((t, e) # evs) =
     (case wait s of
        None \<Rightarrow>
          key_loop tlp tdc (max now t) (fst (read_edge_events_loop tlp tdc s [e]))
            (out @ emit (max now t) (snd (read_edge_events_loop tlp tdc s [e]))) evs
      | Some w \<Rightarrow>
          if t \<le> now \<or> t < now + w
          then key_loop tlp tdc (max now t) (fst (read_edge_events_loop tlp tdc s [e]))
                 (out @ emit (max now t) (snd (read_edge_events_loop tlp tdc s [e]))) evs
          else key_loop tlp tdc (now + w) (fst (timeout_branch s))
                 (out @ emit (now + w) (snd (timeout_branch s))) ((t, e) # evs))"
  by pat_completeness auto
termination
  by (relation "measure (\<lambda>(tlp, tdc, now, s, out, evs).
          2 * length evs + (case wait s of None \<Rightarrow> 0 | Some w \<Rightarrow> 1))")
     (auto simp: timeout_branch_def split: option.splits)

text \<open>
  \<open>read_key_events\<close>: the two durations are read from \<open>conf['time']\<close>; the request is
  open from the arrival of the first edge at the latest.
\<close>

definition read_key_events ::
  "conf \<Rightarrow> timed_edge list \<Rightarrow> py_exception + (real \<times> string) list" where
  "read_key_events c evs =
     (case conf_time c ''press'' of
        None \<Rightarrow> Inl (KeyError ''press'')
      | Some time_long_press \<Rightarrow>
          (case conf_time c ''twice'' of
             None \<Rightarrow> Inl (KeyError ''twice'')
           | Some time_double_click \<Rightarrow>
               Inr (snd (key_loop time_long_press time_double_click
                           (case evs of [] \<Rightarrow> 0 | (t, e) # rest \<Rightarrow> t)
                           key_state_init [] evs))))"

section \<open>oled.py: the page scheduler\<close>

datatype page = SystemPage | LoadPage | DiskPage

text \<open>Which page \<open>gen_pages(idx)\<close> builds.\<close>

definition gen_pages :: "int \<Rightarrow> page" where
  "gen_pages i = (if i = 0 then SystemPage else if i = 1 then LoadPage else DiskPage)"

text \<open>
  What the scheduler does to the outside, in order: a page drawn and shown
  (\<open>draw.text\<close> on each item of \<open>gen_pages(idx)\<close>, then \<open>disp_show()\<close>),
  \<open>slide_event.clear()\<close>, \<open>slide_event.wait(timeout)\<close>.
\<close>

datatype action = Show page | Clear | Wait real

record oled_state =
  idx :: int
  slide_event :: bool
  actions :: "action list"

definition oled_init :: oled_state where
  "oled_init = \<lparr>idx = - 1, slide_event = False, actions = []\<rparr>"

definition slider :: "oled_state \<Rightarrow> oled_state" where
  "slider s =
     (let i = (idx s + 1) mod 3
      in s\<lparr>idx := i, actions := actions s @ [Show (gen_pages i)]\<rparr>)"

definition refresh :: "oled_state \<Rightarrow> oled_state" where
  "refresh s = s\<lparr>actions := actions s @ [Show (gen_pages (idx s))]\<rparr>"

definition event_clear :: "oled_state \<Rightarrow> oled_state" where
  "event_clear s = s\<lparr>slide_event := False, actions := actions s @ [Clear]\<rparr>"

text \<open>
  \<open>slide_event.wait(timeout)\<close>; \<open>signalled\<close> tells whether another flow sets the event
  before the following \<open>is_set()\<close>.
\<close>

definition event_wait :: "real \<Rightarrow> bool \<Rightarrow> oled_state \<Rightarrow> oled_state" where
  "event_wait timeout signalled s =
     s\<lparr>slide_event := (if signalled then True else slide_event s),
       actions := actions s @ [Wait timeout]\<rparr>"

definition get_sleep_time :: "conf \<Rightarrow> py_exception + real" where
  "get_sleep_time c =
     (case conf_slider_time c of None \<Rightarrow> Inl (KeyError ''time'') | Some v \<Rightarrow> Inr v)"

text \<open>One iteration of \<open>while True\<close> in \<open>auto_slider\<close>, on the local \<open>slide\<close> and the state.\<close>

definition auto_slider_body ::
  "conf \<Rightarrow> bool \<Rightarrow> bool \<times> oled_state \<Rightarrow> py_exception + bool \<times> oled_state" where
  "auto_slider_body c signalled st =
     (case conf_slider_auto c of
        None \<Rightarrow> Inl (KeyError ''auto'')
      | Some auto \<Rightarrow>
          let s1 = (if auto \<or> fst st then slider (snd st) else refresh (snd st));
              s2 = event_clear s1
          in (case get_sleep_time c of
                Inl e \<Rightarrow> Inl e
              | Inr tm \<Rightarrow>
                  let s3 = event_wait tm signalled s2
                  in Inr (slide_event s3, s3)))"

text \<open>
  The loop never ends by itself; it is run for as many iterations as the list gives
  outcomes of the wait.
\<close>

fun auto_slider_loop ::
  "conf \<Rightarrow> bool \<times> oled_state \<Rightarrow> bool list \<Rightarrow> py_exception + bool \<times> oled_state" where
  "auto_slider_loop c st [] = Inr st"
| "auto_slider_loop c st (w # ws) =
     (case auto_slider_body c w st of
        Inl e \<Rightarrow> Inl e
      | Inr st' \<Rightarrow> auto_slider_loop c st' ws)"

text \<open>\<open>auto_slider\<close>: \<open>slide = True\<close>, then the loop.\<close>

definition auto_slider ::
  "conf \<Rightarrow> oled_state \<Rightarrow> bool list \<Rightarrow> py_exception + bool \<times> oled_state" where
  "auto_slider c s ws = auto_slider_loop c (True, s) ws"

section \<open>Notions used by the properties\<close>

text \<open>
  What the \<open>try\<close> body can have assigned when it raises: only keys that the
  \<open>except\<close> block assigns again, and no \<open>conf["disk"]\<close>.
\<close>

definition only_default_keys :: "conf \<Rightarrow> bool" where
  "only_default_keys c =
     (dom (conf_fan c) \<subseteq> {''lv0'', ''lv1'', ''lv2'', ''lv3''} \<and>
      dom (conf_key c) \<subseteq> {''click'', ''twice'', ''press''} \<and>
      dom (conf_time c) \<subseteq> {''twice'', ''press''} \<and>
      dom (conf_oled c) \<subseteq> {''rotate'', ''f-temp''} \<and>
      conf_disk c = None)"

text \<open>
  A parser for a file whose \<open>[fan]\<close> section gives lv0, lv1 and lv2 and a value for lv3
  that is no number, and which has no other section.
\<close>

definition cfg_bad_lv3 :: config_parser where
  "cfg_bad_lv3 =
     \<lparr>cfg_get = (\<lambda>sec opt. Inl (NoSectionError sec)),
      cfg_getfloat = (\<lambda>sec opt. if sec = ''fan'' \<and> opt \<noteq> ''lv3'' then Inr 60 else Inl ValueError),
      cfg_getboolean = (\<lambda>sec opt. Inl (NoSectionError sec))\<rparr>"

text \<open>Comparing two results of \<open>fan_temp2dc\<close>: both are returned values, in order.\<close>

definition dc_le :: "py_exception + real \<Rightarrow> py_exception + real \<Rightarrow> bool" where
  "dc_le a b =
     (case a of
        Inl e \<Rightarrow> False
      | Inr x \<Rightarrow> (case b of Inl e \<Rightarrow> False | Inr y \<Rightarrow> x \<le> y))"

section \<open>Properties of the fan duty\<close>

lemma fan_table_lookup:
  "fan_table v0 v1 v2 v3 ''lv0'' = Some v0"
  "fan_table v0 v1 v2 v3 ''lv1'' = Some v1"
  "fan_table v0 v1 v2 v3 ''lv2'' = Some v2"
  "fan_table v0 v1 v2 v3 ''lv3'' = Some v3"
  by (simp_all add: fan_table_def)

lemma fan_temp2dc_loop_table:
  "fan_temp2dc_loop (c\<lparr>conf_fan := fan_table v0 v1 v2 v3\<rparr>) t lv2dc =
     Inr (if v3 \<le> t then 1 else if v2 \<le> t then 0.75 else if v1 \<le> t then 0.5
          else if v0 \<le> t then 0.25 else FAN_DUTY_OFF)"
  by (simp add: lv2dc_def fan_table_lookup)

lemma default_conf_fan_table:
  "default_conf\<lparr>conf_fan := fan_table 35 40 45 50\<rparr> = default_conf"
  by (simp add: default_conf_def fan_table_def)

text \<open>
  C1 (as amended). With the default table (35, 40, 45, 50), \<open>fan_temp2dc\<close> returns 0.5
  at 42 and 1.0 at 30: it returns \<open>duty2dc result = 1 - result\<close>, where the loop's
  \<open>result\<close> is 0.5 at 42 (lv1) and \<open>FAN_DUTY_OFF = 0.0\<close> at 30. In what is returned,
  1.0 stands for the fan off and 0.0 for full speed.
\<close>

theorem fan_temp2dc_default_table:
  "fan_temp2dc default_conf 42 = Inr 0.5 \<and>
   fan_temp2dc default_conf 30 = Inr 1 \<and>
   fan_temp2dc_loop default_conf 42 lv2dc = Inr 0.5 \<and>
   fan_temp2dc_loop default_conf 30 lv2dc = Inr FAN_DUTY_OFF \<and>
   duty2dc FAN_DUTY_OFF = 1 \<and> duty2dc FAN_DUTY_ON = 0"
  using fan_temp2dc_loop_table
          [where c = default_conf and ?v0.0 = 35 and ?v1.0 = 40 and ?v2.0 = 45
             and ?v3.0 = 50 and t = 42]
        fan_temp2dc_loop_table
          [where c = default_conf and ?v0.0 = 35 and ?v1.0 = 40 and ?v2.0 = 45
             and ?v3.0 = 50 and t = 30]
  by (simp add: default_conf_fan_table fan_temp2dc_def duty2dc_def FAN_DUTY_OFF_def
        FAN_DUTY_ON_def)

text \<open>C1 as stated fails: at 30 the function does not return 0.0.\<close>

theorem fan_temp2dc_default_30_not_zero:
  "fan_temp2dc default_conf 30 \<noteq> Inr 0"
  using fan_temp2dc_loop_table
          [where c = default_conf and ?v0.0 = 35 and ?v1.0 = 40 and ?v2.0 = 45
             and ?v3.0 = 50 and t = 30]
  by (simp add: default_conf_fan_table fan_temp2dc_def duty2dc_def FAN_DUTY_OFF_def)

text \<open>
  C2 (as amended). For every table of four thresholds, what \<open>fan_temp2dc\<close> returns is
  monotonic non-increasing in the temperature (the loop's \<open>result\<close>, before
  \<open>duty2dc\<close>, is non-decreasing), and for a temperature below all four thresholds it
  returns \<open>duty2dc FAN_DUTY_OFF\<close>, which is 1.0.
\<close>

theorem fan_temp2dc_antitone:
  "(t1 \<le> t2 \<longrightarrow>
      dc_le (fan_temp2dc (c\<lparr>conf_fan := fan_table v0 v1 v2 v3\<rparr>) t2)
            (fan_temp2dc (c\<lparr>conf_fan := fan_table v0 v1 v2 v3\<rparr>) t1) \<and>
      dc_le (fan_temp2dc_loop (c\<lparr>conf_fan := fan_table v0 v1 v2 v3\<rparr>) t1 lv2dc)
            (fan_temp2dc_loop (c\<lparr>conf_fan := fan_table v0 v1 v2 v3\<rparr>) t2 lv2dc)) \<and>
   (t < v0 \<and> t < v1 \<and> t < v2 \<and> t < v3 \<longrightarrow>
      fan_temp2dc (c\<lparr>conf_fan := fan_table v0 v1 v2 v3\<rparr>) t = Inr (duty2dc FAN_DUTY_OFF) \<and>
      duty2dc FAN_DUTY_OFF = 1)"
  by (simp add: fan_temp2dc_loop_table fan_temp2dc_def duty2dc_def FAN_DUTY_OFF_def
        dc_le_def)

theorem fan_temp2dc_antitone_witness:
  "(30::real) \<le> 42 \<and>
   dc_le (fan_temp2dc default_conf 42) (fan_temp2dc default_conf 30) \<and>
   dc_le (fan_temp2dc_loop default_conf 30 lv2dc) (fan_temp2dc_loop default_conf 42 lv2dc) \<and>
   (30::real) < 35 \<and> (30::real) < 40 \<and> (30::real) < 45 \<and> (30::real) < 50 \<and>
   fan_temp2dc default_conf 30 = Inr (duty2dc FAN_DUTY_OFF)"
  using fan_temp2dc_antitone
          [where ?t1.0 = 30 and ?t2.0 = 42 and c = default_conf and ?v0.0 = 35
             and ?v1.0 = 40 and ?v2.0 = 45 and ?v3.0 = 50 and t = 30]
  unfolding default_conf_fan_table by auto

text \<open>
  C2 as stated fails: with the default table, 30 is below 42 and yet the value returned
  at 30 is not below or equal to the value returned at 42.
\<close>

theorem fan_temp2dc_not_nondecreasing:
  "(30::real) \<le> 42 \<and>
   \<not> dc_le (fan_temp2dc default_conf 30) (fan_temp2dc default_conf 42)"
  using fan_temp2dc_loop_table
          [where c = default_conf and ?v0.0 = 35 and ?v1.0 = 40 and ?v2.0 = 45
             and ?v3.0 = 50 and t = 42]
        fan_temp2dc_loop_table
          [where c = default_conf and ?v0.0 = 35 and ?v1.0 = 40 and ?v2.0 = 45
             and ?v3.0 = 50 and t = 30]
  by (simp add: default_conf_fan_table fan_temp2dc_def duty2dc_def FAN_DUTY_OFF_def
        dc_le_def)

text \<open>
  C8. The levels are tried in the order lv3, lv2, lv1, lv0; the first level whose
  threshold is at most the temperature fixes the result alone, which \<open>duty2dc\<close> then
  turns into the returned value; with no such level the result is \<open>FAN_DUTY_OFF\<close>.
  For every temperature and every table of four thresholds the function returns, and
  what it returns lies between 0.0 and 1.0.
\<close>

theorem fan_temp2dc_highest_first:
  "map fst lv2dc = [''lv3'', ''lv2'', ''lv1'', ''lv0''] \<and>
   fan_temp2dc (c\<lparr>conf_fan := fan_table v0 v1 v2 v3\<rparr>) t =
     Inr (duty2dc (if v3 \<le> t then 1 else if v2 \<le> t then 0.75 else if v1 \<le> t then 0.5
                   else if v0 \<le> t then 0.25 else FAN_DUTY_OFF)) \<and>
   (\<exists>d. fan_temp2dc (c\<lparr>conf_fan := fan_table v0 v1 v2 v3\<rparr>) t = Inr d \<and> 0 \<le> d \<and> d \<le> 1)"
proof -
  have "map fst lv2dc = [''lv3'', ''lv2'', ''lv1'', ''lv0'']"
    by (simp add: lv2dc_def)
  then show ?thesis
    by (simp add: fan_temp2dc_loop_table fan_temp2dc_def duty2dc_def FAN_DUTY_OFF_def)
qed

section \<open>Properties of the key events\<close>

lemmas key_simps = read_key_events_def key_state_init_def timeout_branch_def edge_branch_def
  emit_def event_single_def event_double_def event_long_def Let_def

text \<open>
  Edges that \<open>read_edge_events()\<close> returns together are handled as if they had been
  returned one by one: the state and the yielded values do not depend on the batching.
\<close>

lemma read_edge_events_loop_append:
  "read_edge_events_loop tlp tdc s (xs @ ys) =
     (case read_edge_events_loop tlp tdc s xs of
        (s', as) \<Rightarrow>
          (case read_edge_events_loop tlp tdc s' ys of
             (s'', bs) \<Rightarrow> (s'', as @ bs)))"
  by (induction xs arbitrary: s) (auto split: prod.splits)

lemma default_conf_time:
  "default_conf\<lparr>conf_time := [''twice'' \<mapsto> 0.7, ''press'' \<mapsto> 1.8]\<rparr> = default_conf"
  by (simp add: default_conf_def)

text \<open>
  C4 (as amended). A press at \<open>t0\<close> and its release at \<open>t1\<close>, less than the double-click
  window and less than the long-press time apart, with no edge after them: exactly one
  \<open>click\<close> is yielded, at \<open>t1 + tdc\<close>, that is once the double-click window has elapsed
  after the release.
\<close>

theorem single_click_after_window:
  "t0 \<le> t1 \<Longrightarrow> t1 - t0 < tdc \<Longrightarrow> t1 - t0 < tlp \<Longrightarrow>
   read_key_events (c\<lparr>conf_time := [''twice'' \<mapsto> tdc, ''press'' \<mapsto> tlp]\<rparr>)
     [(t0, FALLING_EDGE), (t1, RISING_EDGE)] = Inr [(t1 + tdc, ''click'')] \<and> t1 < t1 + tdc"
  by (simp add: key_simps)

theorem single_click_after_window_witness:
  "(0::real) \<le> 0.3 \<and> (0.3::real) - 0 < 0.7 \<and> (0.3::real) - 0 < 1.8 \<and>
   read_key_events default_conf [(0, FALLING_EDGE), (0.3, RISING_EDGE)] = Inr [(1, ''click'')]"
  using single_click_after_window
          [where ?t0.0 = 0 and ?t1.0 = "0.3" and tdc = "0.7" and tlp = "1.8" and c = default_conf]
  unfolding default_conf_time by simp

text \<open>
  C4 as stated fails when the configured double-click window (3 s) is longer than the
  long-press time (1 s): a press released after 2 s, less than the window, yields
  \<open>press\<close> at 1 s and no \<open>click\<close>.
\<close>

theorem single_click_long_window_counterexample:
  "(0::real) \<le> 2 \<and> (2::real) - 0 < 3 \<and>
   read_key_events (default_conf\<lparr>conf_time := [''twice'' \<mapsto> 3, ''press'' \<mapsto> 1]\<rparr>)
     [(0, FALLING_EDGE), (2, RISING_EDGE)] = Inr [(1, ''press'')]"
  by (simp add: key_simps)

text \<open>
  C5 (as amended). Press, release, press, release, where the first press is released
  before the long-press time and the second release comes less than the double-click
  window after the first release: exactly one \<open>twice\<close> is yielded, at the second release,
  and nothing else.
\<close>

theorem double_click_once:
  "t0 \<le> t1 \<Longrightarrow> t1 \<le> t2 \<Longrightarrow> t2 \<le> t3 \<Longrightarrow> t1 - t0 < tlp \<Longrightarrow> t3 - t1 < tdc \<Longrightarrow>
   read_key_events (c\<lparr>conf_time := [''twice'' \<mapsto> tdc, ''press'' \<mapsto> tlp]\<rparr>)
     [(t0, FALLING_EDGE), (t1, RISING_EDGE), (t2, FALLING_EDGE), (t3, RISING_EDGE)]
   = Inr [(t3, ''twice'')]"
  by (simp add: key_simps)

theorem double_click_once_witness:
  "(0::real) \<le> 0.2 \<and> (0.2::real) \<le> 0.4 \<and> (0.4::real) \<le> 0.6 \<and> (0.2::real) - 0 < 1.8 \<and>
   (0.6::real) - 0.2 < 0.7 \<and>
   read_key_events default_conf
     [(0, FALLING_EDGE), (0.2, RISING_EDGE), (0.4, FALLING_EDGE), (0.6, RISING_EDGE)]
   = Inr [(0.6, ''twice'')]"
  using double_click_once
          [where ?t0.0 = 0 and ?t1.0 = "0.2" and ?t2.0 = "0.4" and ?t3.0 = "0.6"
             and tdc = "0.7" and tlp = "1.8" and c = default_conf]
  unfolding default_conf_time by simp

text \<open>
  C5 as stated fails: with a double-click window of 3 s and a long-press time of 1 s, the
  four edges at 0, 1.5, 1.6 and 1.7 s all lie inside one window, and the generator yields
  \<open>press\<close> and then \<open>click\<close>, no \<open>twice\<close>.
\<close>

theorem double_click_long_window_counterexample:
  "read_key_events (default_conf\<lparr>conf_time := [''twice'' \<mapsto> 3, ''press'' \<mapsto> 1]\<rparr>)
     [(0, FALLING_EDGE), (1.5, RISING_EDGE), (1.6, FALLING_EDGE), (1.7, RISING_EDGE)]
   = Inr [(1, ''press''), (4.7, ''click'')]"
  by (simp add: key_simps)

text \<open>
  C6 (as amended). The generator is blocked with a click counter of 0 when a press comes
  at \<open>t0\<close>, held longer than the long-press time. Then exactly one \<open>press\<close> is yielded, at
  \<open>t0 + tlp\<close>, and the flag is set; the release at \<open>t1\<close> yields nothing, leaves the
  counter at 0 and clears the flag; a further release at \<open>t2\<close> is counted again (it ends
  in a \<open>click\<close>).
\<close>

theorem long_press_once:
  "click_count s = 0 \<Longrightarrow> wait s = None \<Longrightarrow> 0 < tlp \<Longrightarrow> now \<le> t0 \<Longrightarrow> t0 + tlp < t1 \<Longrightarrow>
   t1 \<le> t2 \<Longrightarrow>
   key_loop tlp tdc now s out [(t0, FALLING_EDGE)] =
     (\<lparr>click_count = 0, wait = None, ignore_release = True\<rparr>, out @ [(t0 + tlp, ''press'')]) \<and>
   key_loop tlp tdc now s out [(t0, FALLING_EDGE), (t1, RISING_EDGE)] =
     (\<lparr>click_count = 0, wait = None, ignore_release = False\<rparr>, out @ [(t0 + tlp, ''press'')]) \<and>
   key_loop tlp tdc now s out [(t0, FALLING_EDGE), (t1, RISING_EDGE), (t2, RISING_EDGE)] =
     (\<lparr>click_count = 0, wait = None, ignore_release = False\<rparr>,
      out @ [(t0 + tlp, ''press''), (t2 + tdc, ''click'')])"
  by (cases s) (simp add: key_simps)

theorem long_press_once_witness:
  "click_count key_state_init = 0 \<and> wait key_state_init = None \<and> (0::real) < 1.8 \<and>
   (0::real) \<le> 0 \<and> (0::real) + 1.8 < 5 \<and> (5::real) \<le> 6 \<and>
   key_loop 1.8 0.7 0 key_state_init [] [(0, FALLING_EDGE)] =
     (\<lparr>click_count = 0, wait = None, ignore_release = True\<rparr>, [(1.8, ''press'')]) \<and>
   key_loop 1.8 0.7 0 key_state_init [] [(0, FALLING_EDGE), (5, RISING_EDGE)] =
     (\<lparr>click_count = 0, wait = None, ignore_release = False\<rparr>, [(1.8, ''press'')]) \<and>
   key_loop 1.8 0.7 0 key_state_init [] [(0, FALLING_EDGE), (5, RISING_EDGE), (6, RISING_EDGE)] =
     (\<lparr>click_count = 0, wait = None, ignore_release = False\<rparr>,
      [(1.8, ''press''), (6.7, ''click'')])"
  using long_press_once
          [where s = key_state_init and tlp = "1.8" and tdc = "0.7" and now = 0 and ?t0.0 = 0
             and ?t1.0 = 5 and ?t2.0 = 6 and out = "[]"]
  by (simp add: key_state_init_def)

text \<open>
  C6 as stated fails for a press that comes while the click counter is 1: with the
  default durations, after a click at 0 to 0.1 s the press at 0.2 s is held until 5 s,
  longer than 1.8 s, and the generator yields \<open>click\<close> twice and never \<open>press\<close>; the
  release at 5 s is counted.
\<close>

theorem held_second_press_counterexample:
  "read_key_events default_conf
     [(0, FALLING_EDGE), (0.1, RISING_EDGE), (0.2, FALLING_EDGE), (5, RISING_EDGE)]
   = Inr [(0.9, ''click''), (5.7, ''click'')]"
  by (simp add: key_simps default_conf_def)

text \<open>
  C7 (as amended). The double-click window is 0.7 s and the first press, at \<open>t0\<close>, is
  released at 0 before the long-press time. A second press at \<open>p\<close> released at 0.5
  gives one \<open>twice\<close>, at 0.5. A second press at \<open>q\<close> after the timeout at 0.7, released
  at 0.9 before the long-press time has passed since \<open>q\<close> (\<open>0.9 - q < tlp\<close>), gives two
  \<open>click\<close>s: the first at 0.7, the second at 1.6, one window after the second release.
\<close>

theorem window_scenario:
  "t0 \<le> 0 \<Longrightarrow> - t0 < tlp \<Longrightarrow>
   (0 \<le> p \<and> p \<le> 0.5 \<longrightarrow>
      read_key_events (c\<lparr>conf_time := [''twice'' \<mapsto> 0.7, ''press'' \<mapsto> tlp]\<rparr>)
        [(t0, FALLING_EDGE), (0, RISING_EDGE), (p, FALLING_EDGE), (0.5, RISING_EDGE)]
      = Inr [(0.5, ''twice'')]) \<and>
   (0.7 < q \<and> q \<le> 0.9 \<and> 0.9 - q < tlp \<longrightarrow>
      read_key_events (c\<lparr>conf_time := [''twice'' \<mapsto> 0.7, ''press'' \<mapsto> tlp]\<rparr>)
        [(t0, FALLING_EDGE), (0, RISING_EDGE), (q, FALLING_EDGE), (0.9, RISING_EDGE)]
      = Inr [(0.7, ''click''), (1.6, ''click'')])"
  by (simp add: key_simps)

theorem window_scenario_witness:
  "(- 0.2::real) \<le> 0 \<and> - (- 0.2::real) < 1.8 \<and> (0::real) \<le> 0.4 \<and> (0.4::real) \<le> 0.5 \<and>
   (0.7::real) < 0.8 \<and> (0.8::real) \<le> 0.9 \<and> (0.9::real) - 0.8 < 1.8 \<and>
   read_key_events default_conf
     [(- 0.2, FALLING_EDGE), (0, RISING_EDGE), (0.4, FALLING_EDGE), (0.5, RISING_EDGE)]
     = Inr [(0.5, ''twice'')] \<and>
   read_key_events default_conf
     [(- 0.2, FALLING_EDGE), (0, RISING_EDGE), (0.8, FALLING_EDGE), (0.9, RISING_EDGE)]
     = Inr [(0.7, ''click''), (1.6, ''click'')]"
  using window_scenario
          [where ?t0.0 = "- 0.2" and tlp = "1.8" and p = "0.4" and q = "0.8" and c = default_conf]
  unfolding default_conf_time by simp

text \<open>
  C7 as stated fails when the second press comes before the timeout: with releases at 0
  and 0.9 and the second press at 0.5, the wait of 0.7 s starts again at 0.5, the release
  at 0.9 falls inside it, and the generator yields one \<open>twice\<close> instead of two \<open>click\<close>s.
\<close>

theorem window_restart_counterexample:
  "read_key_events default_conf
     [(- 0.2, FALLING_EDGE), (0, RISING_EDGE), (0.5, FALLING_EDGE), (0.9, RISING_EDGE)]
   = Inr [(0.9, ''twice'')]"
  by (simp add: key_simps default_conf_def)

section \<open>Properties of the configuration\<close>

lemma outside_dom: "dom m \<subseteq> A \<Longrightarrow> k \<notin> A \<Longrightarrow> m k = None"
  by (meson domIff subsetD)

lemma upd_over2:
  assumes "dom m \<subseteq> {a, b}"
  shows "m(a \<mapsto> x, b \<mapsto> y) = [a \<mapsto> x, b \<mapsto> y]"
proof (rule ext)
  fix k
  show "(m(a \<mapsto> x, b \<mapsto> y)) k = [a \<mapsto> x, b \<mapsto> y] k"
    using outside_dom [OF assms, of k] by (cases "k = a"; cases "k = b"; simp)
qed

lemma upd_over3:
  assumes "dom m \<subseteq> {a, b, d}"
  shows "m(a \<mapsto> x, b \<mapsto> y, d \<mapsto> z) = [a \<mapsto> x, b \<mapsto> y, d \<mapsto> z]"
proof (rule ext)
  fix k
  show "(m(a \<mapsto> x, b \<mapsto> y, d \<mapsto> z)) k = [a \<mapsto> x, b \<mapsto> y, d \<mapsto> z] k"
    using outside_dom [OF assms, of k] by (cases "k = a"; cases "k = b"; cases "k = d"; simp)
qed

lemma upd_over4:
  assumes "dom m \<subseteq> {a, b, d, e}"
  shows "m(a \<mapsto> x, b \<mapsto> y, d \<mapsto> z, e \<mapsto> u) = [a \<mapsto> x, b \<mapsto> y, d \<mapsto> z, e \<mapsto> u]"
proof (rule ext)
  fix k
  show "(m(a \<mapsto> x, b \<mapsto> y, d \<mapsto> z, e \<mapsto> u)) k = [a \<mapsto> x, b \<mapsto> y, d \<mapsto> z, e \<mapsto> u] k"
    using outside_dom [OF assms, of k]
    by (cases "k = a"; cases "k = b"; cases "k = d"; cases "k = e"; simp)
qed

lemma except_block_default:
  assumes "only_default_keys c"
  shows "except_block c = default_conf"
proof -
  from assms have d:
    "dom (conf_fan c) \<subseteq> {''lv0'', ''lv1'', ''lv2'', ''lv3''}"
    "dom (conf_key c) \<subseteq> {''click'', ''twice'', ''press''}"
    "dom (conf_time c) \<subseteq> {''twice'', ''press''}"
    "dom (conf_oled c) \<subseteq> {''rotate'', ''f-temp''}"
    "conf_disk c = None"
    by (simp_all add: only_default_keys_def)
  have "conf_fan (except_block c) = conf_fan default_conf"
    by (simp add: except_block_def default_conf_def upd_over4 [OF d(1)])
  moreover have "conf_key (except_block c) = conf_key default_conf"
    by (simp add: except_block_def default_conf_def upd_over3 [OF d(2)])
  moreover have "conf_time (except_block c) = conf_time default_conf"
    by (simp add: except_block_def default_conf_def upd_over2 [OF d(3)])
  moreover have "conf_oled (except_block c) = conf_oled default_conf"
    by (simp add: except_block_def default_conf_def upd_over2 [OF d(4)])
  moreover have "conf_disk (except_block c) = conf_disk default_conf"
    using d(5) by (simp add: except_block_def default_conf_def)
  moreover have "conf_slider_auto (except_block c) = conf_slider_auto default_conf"
    "conf_slider_time (except_block c) = conf_slider_time default_conf"
    by (simp_all add: except_block_def default_conf_def)
  ultimately show ?thesis
    by (intro conf.equality) simp_all
qed

lemma run_try_raised:
  assumes "run_try sts c = (c', Some e)"
    and "P c"
    and "\<And>st a b. st \<in> set (butlast sts) \<Longrightarrow> P a \<Longrightarrow> st a = Inr b \<Longrightarrow> P b"
  shows "P c'"
  using assms
proof (induction sts arbitrary: c)
  case Nil
  then show ?case by simp
next
  case (Cons st sts)
  show ?case
  proof (cases "st c")
    case (Inl x)
    with Cons.prems show ?thesis by simp
  next
    case (Inr c1)
    with Cons.prems(1) have run: "run_try sts c1 = (c', Some e)" by simp
    then have ne: "sts \<noteq> []" by auto
    then have "st \<in> set (butlast (st # sts))" by simp
    with Cons.prems(2,3) Inr have "P c1" by blast
    moreover have "\<And>st' a b. st' \<in> set (butlast sts) \<Longrightarrow> P a \<Longrightarrow> st' a = Inr b \<Longrightarrow> P b"
    proof -
      fix st' a b
      assume "st' \<in> set (butlast sts)" and pa: "P a" and sb: "st' a = Inr b"
      with ne have "st' \<in> set (butlast (st # sts))" by simp
      with pa sb show "P b" using Cons.prems(3) by blast
    qed
    ultimately show ?thesis using Cons.IH run by blast
  qed
qed

lemma dom_upd_within: "dom m \<subseteq> A \<Longrightarrow> k \<in> A \<Longrightarrow> dom (m(k \<mapsto> v)) \<subseteq> A"
  by simp

lemma set_fan_keeps:
  assumes inv: "only_default_keys a" and k: "k \<in> {''lv0'', ''lv1'', ''lv2'', ''lv3''}" and st: "set_fan k r a = Inr b"
  shows "only_default_keys b"
proof -
  from st obtain v where b: "b = a\<lparr>conf_fan := (conf_fan a)(k \<mapsto> v)\<rparr>"
    by (cases r) (auto simp: set_fan_def)
  from inv have "dom (conf_fan a) \<subseteq> {''lv0'', ''lv1'', ''lv2'', ''lv3''}"
    by (simp add: only_default_keys_def)
  from dom_upd_within [OF this k] have "dom ((conf_fan a)(k \<mapsto> v)) \<subseteq> {''lv0'', ''lv1'', ''lv2'', ''lv3''}" .
  with inv show ?thesis
    unfolding b only_default_keys_def by simp
qed

lemma set_key_keeps:
  assumes inv: "only_default_keys a" and k: "k \<in> {''click'', ''twice'', ''press''}" and st: "set_key k r a = Inr b"
  shows "only_default_keys b"
proof -
  from st obtain v where b: "b = a\<lparr>conf_key := (conf_key a)(k \<mapsto> v)\<rparr>"
    by (cases r) (auto simp: set_key_def)
  from inv have "dom (conf_key a) \<subseteq> {''click'', ''twice'', ''press''}"
    by (simp add: only_default_keys_def)
  from dom_upd_within [OF this k] have "dom ((conf_key a)(k \<mapsto> v)) \<subseteq> {''click'', ''twice'', ''press''}" .
  with inv show ?thesis
    unfolding b only_default_keys_def by simp
qed

lemma set_time_keeps:
  assumes inv: "only_default_keys a" and k: "k \<in> {''twice'', ''press''}" and st: "set_time k r a = Inr b"
  shows "only_default_keys b"
proof -
  from st obtain v where b: "b = a\<lparr>conf_time := (conf_time a)(k \<mapsto> v)\<rparr>"
    by (cases r) (auto simp: set_time_def)
  from inv have "dom (conf_time a) \<subseteq> {''twice'', ''press''}"
    by (simp add: only_default_keys_def)
  from dom_upd_within [OF this k] have "dom ((conf_time a)(k \<mapsto> v)) \<subseteq> {''twice'', ''press''}" .
  with inv show ?thesis
    unfolding b only_default_keys_def by simp
qed

lemma set_oled_keeps:
  assumes inv: "only_default_keys a" and k: "k \<in> {''rotate'', ''f-temp''}" and st: "set_oled k r a = Inr b"
  shows "only_default_keys b"
proof -
  from st obtain v where b: "b = a\<lparr>conf_oled := (conf_oled a)(k \<mapsto> v)\<rparr>"
    by (cases r) (auto simp: set_oled_def)
  from inv have "dom (conf_oled a) \<subseteq> {''rotate'', ''f-temp''}"
    by (simp add: only_default_keys_def)
  from dom_upd_within [OF this k] have "dom ((conf_oled a)(k \<mapsto> v)) \<subseteq> {''rotate'', ''f-temp''}" .
  with inv show ?thesis
    unfolding b only_default_keys_def by simp
qed

lemma set_slider_auto_keeps:
  assumes inv: "only_default_keys a" and st: "set_slider_auto r a = Inr b"
  shows "only_default_keys b"
proof -
  from st obtain v where b: "b = a\<lparr>conf_slider_auto := Some v\<rparr>"
    by (cases r) (auto simp: set_slider_auto_def)
  from inv show ?thesis
    unfolding b only_default_keys_def by simp
qed

lemma set_slider_time_keeps:
  assumes inv: "only_default_keys a" and st: "set_slider_time r a = Inr b"
  shows "only_default_keys b"
proof -
  from st obtain v where b: "b = a\<lparr>conf_slider_time := Some v\<rparr>"
    by (cases r) (auto simp: set_slider_time_def)
  from inv show ?thesis
    unfolding b only_default_keys_def by simp
qed

lemma butlast_try_body:
  "butlast (try_body cfg) =
     [set_fan ''lv0'' (cfg_getfloat cfg ''fan'' ''lv0''),
      set_fan ''lv1'' (cfg_getfloat cfg ''fan'' ''lv1''),
      set_fan ''lv2'' (cfg_getfloat cfg ''fan'' ''lv2''),
      set_fan ''lv3'' (cfg_getfloat cfg ''fan'' ''lv3''),
      set_key ''click'' (cfg_get cfg ''key'' ''click''),
      set_key ''twice'' (cfg_get cfg ''key'' ''twice''),
      set_key ''press'' (cfg_get cfg ''key'' ''press''),
      set_time ''twice'' (cfg_getfloat cfg ''time'' ''twice''),
      set_time ''press'' (cfg_getfloat cfg ''time'' ''press''),
      set_slider_auto (cfg_getboolean cfg ''slider'' ''auto''),
      set_slider_time (cfg_getfloat cfg ''slider'' ''time''),
      set_oled ''rotate'' (cfg_getboolean cfg ''oled'' ''rotate''),
      set_oled ''f-temp'' (cfg_getboolean cfg ''oled'' ''f-temp'')]"
  by (simp add: try_body_def)

lemma try_body_keeps:
  assumes "st \<in> set (butlast (try_body cfg))" "only_default_keys a" "st a = Inr b"
  shows "only_default_keys b"
proof -
  from assms(1) consider
      k r where "st = set_fan k r" "k \<in> {''lv0'', ''lv1'', ''lv2'', ''lv3''}"
    | k r where "st = set_key k r" "k \<in> {''click'', ''twice'', ''press''}"
    | k r where "st = set_time k r" "k \<in> {''twice'', ''press''}"
    | k r where "st = set_oled k r" "k \<in> {''rotate'', ''f-temp''}"
    | r where "st = set_slider_auto r"
    | r where "st = set_slider_time r"
    unfolding butlast_try_body list.set by blast
  then show ?thesis
  proof cases
    case 1 with assms(2,3) show ?thesis using set_fan_keeps by blast
  next
    case 2 with assms(2,3) show ?thesis using set_key_keeps by blast
  next
    case 3 with assms(2,3) show ?thesis using set_time_keeps by blast
  next
    case 4 with assms(2,3) show ?thesis using set_oled_keeps by blast
  next
    case 5 with assms(2,3) show ?thesis using set_slider_auto_keeps by blast
  next
    case 6 with assms(2,3) show ?thesis using set_slider_time_keeps by blast
  qed
qed

lemma read_conf_raised:
  assumes "load_fails rd"
  shows "read_conf rd = default_conf"
proof (cases rd)
  case (Inl e)
  have "only_default_keys conf_empty"
    by (simp add: only_default_keys_def conf_empty_def)
  with Inl show ?thesis
    by (simp add: read_conf_def except_block_default)
next
  case (Inr cfg)
  obtain c' r where run: "run_try (try_body cfg) conf_empty = (c', r)"
    by (cases "run_try (try_body cfg) conf_empty")
  with assms Inr obtain e where r: "r = Some e"
    by (auto simp: load_fails_def)
  have "only_default_keys conf_empty"
    by (simp add: only_default_keys_def conf_empty_def)
  with run r have "only_default_keys c'"
    using run_try_raised [where P = only_default_keys] try_body_keeps by blast
  with Inr run r show ?thesis
    by (simp add: read_conf_def except_block_default)
qed

text \<open>
  C9. Whenever the \<open>try\<close> body of \<open>read_conf\<close> raises, \<open>read_conf\<close> still returns, and
  what it returns is the dictionary of the defaults: lv0 to lv3 are 35, 40, 45 and 50,
  click is slider, twice is switch, press is none, the double-click window is 0.7, the
  long-press time 1.8, the slider is automatic and its interval is 10.
\<close>

theorem read_conf_defaults_on_failure:
  "load_fails rd \<Longrightarrow>
   read_conf rd = default_conf \<and>
   conf_fan (read_conf rd) ''lv0'' = Some 35 \<and>
   conf_fan (read_conf rd) ''lv1'' = Some 40 \<and>
   conf_fan (read_conf rd) ''lv2'' = Some 45 \<and>
   conf_fan (read_conf rd) ''lv3'' = Some 50 \<and>
   conf_key (read_conf rd) ''click'' = Some ''slider'' \<and>
   conf_key (read_conf rd) ''twice'' = Some ''switch'' \<and>
   conf_key (read_conf rd) ''press'' = Some ''none'' \<and>
   conf_time (read_conf rd) ''twice'' = Some 0.7 \<and>
   conf_time (read_conf rd) ''press'' = Some 1.8 \<and>
   conf_slider_auto (read_conf rd) = Some True \<and>
   conf_slider_time (read_conf rd) = Some 10"
  by (simp add: read_conf_raised) (simp add: default_conf_def)

theorem read_conf_defaults_on_failure_witness:
  "load_fails (Inr cfg_bad_lv3) \<and>
   read_conf (Inr cfg_bad_lv3) = default_conf \<and>
   conf_fan (read_conf (Inr cfg_bad_lv3)) ''lv0'' = Some 35 \<and>
   conf_slider_time (read_conf (Inr cfg_bad_lv3)) = Some 10"
proof -
  have lf: "load_fails (Inr cfg_bad_lv3)"
    by (simp add: load_fails_def try_body_def cfg_bad_lv3_def set_fan_def conf_empty_def)
  from read_conf_defaults_on_failure [OF lf] lf show ?thesis by blast
qed

text \<open>
  Whatever the file holds, the fan table that \<open>read_conf\<close> returns has exactly the four
  levels: these are the tables \<open>fan_temp2dc\<close> works on.
\<close>

lemma run_try_fan:
  assumes "run_try (try_body cfg) conf_empty = (c, None)"
  shows "\<exists>v0 v1 v2 v3. conf_fan c = fan_table v0 v1 v2 v3"
proof -
  from assms obtain v0 v1 v2 v3 where
    "cfg_getfloat cfg ''fan'' ''lv0'' = Inr v0" "cfg_getfloat cfg ''fan'' ''lv1'' = Inr v1"
    "cfg_getfloat cfg ''fan'' ''lv2'' = Inr v2" "cfg_getfloat cfg ''fan'' ''lv3'' = Inr v3"
    by (auto simp: try_body_def set_fan_def split: sum.splits)
  with assms have "conf_fan c = fan_table v0 v1 v2 v3"
    by (auto simp: try_body_def set_fan_def set_key_def set_time_def set_slider_auto_def
          set_slider_time_def set_oled_def set_disk_def conf_empty_def fan_table_def
          split: sum.splits)
  then show ?thesis by blast
qed

lemma read_conf_fan_table:
  "\<exists>v0 v1 v2 v3. conf_fan (read_conf rd) = fan_table v0 v1 v2 v3"
proof (cases "load_fails rd")
  case True
  then have "read_conf rd = default_conf" by (rule read_conf_raised)
  moreover have "conf_fan default_conf = fan_table 35 40 45 50"
    by (simp add: default_conf_def fan_table_def)
  ultimately show ?thesis by metis
next
  case False
  then obtain cfg where rd: "rd = Inr cfg"
    by (cases rd) (auto simp: load_fails_def)
  obtain c r where run: "run_try (try_body cfg) conf_empty = (c, r)"
    by (cases "run_try (try_body cfg) conf_empty")
  with False rd have r: "r = None"
    by (simp add: load_fails_def)
  from run r run_try_fan obtain v0 v1 v2 v3 where fan: "conf_fan c = fan_table v0 v1 v2 v3"
    by blast
  from rd run r have "read_conf rd = c"
    by (simp add: read_conf_def)
  with fan show ?thesis by blast
qed

section \<open>Properties of the page scheduler\<close>

lemma auto_slider_body_conf:
  "auto_slider_body (c\<lparr>conf_slider_auto := Some a, conf_slider_time := Some tm\<rparr>) w (sl, s) =
     Inr (w,
       (if a \<or> sl
        then s\<lparr>idx := (idx s + 1) mod 3, slide_event := w,
               actions := actions s @ [Show (gen_pages ((idx s + 1) mod 3)), Clear, Wait tm]\<rparr>
        else s\<lparr>slide_event := w,
               actions := actions s @ [Show (gen_pages (idx s)), Clear, Wait tm]\<rparr>))"
  by (simp add: auto_slider_body_def get_sleep_time_def slider_def refresh_def event_clear_def
        event_wait_def Let_def)

lemma auto_slider_loop_snoc:
  "auto_slider_loop c st (ws @ [w]) =
     (case auto_slider_loop c st ws of Inl e \<Rightarrow> Inl e | Inr st' \<Rightarrow> auto_slider_body c w st')"
  by (induction ws arbitrary: st) (auto split: sum.splits)

lemma auto_slider_loop_returns:
  "\<exists>s'. auto_slider_loop (c\<lparr>conf_slider_auto := Some a, conf_slider_time := Some tm\<rparr>) (sl, s) ws =
     Inr (if ws = [] then sl else last ws, s')"
proof (induction ws arbitrary: sl s)
  case Nil
  then show ?case by simp
next
  case (Cons w ws)
  show ?case
    using Cons.IH [of w] by (simp add: auto_slider_body_conf)
qed

text \<open>
  C3 (as amended). The iteration that follows the waits \<open>ws\<close>: \<open>slide\<close> is true on the
  first iteration and is afterwards what \<open>is_set()\<close> gave after the last wait. When
  auto-rotation is on or \<open>slide\<close> is true, the index goes up by one modulo 3 and the new
  page is shown; otherwise the current page is shown again and the index stays. Either
  way the event is then cleared and waited for with the configured interval, and after
  the wait it is set only when it was signalled in between.
\<close>

theorem auto_slider_iteration:
  "\<exists>s s'.
     auto_slider (c\<lparr>conf_slider_auto := Some a, conf_slider_time := Some tm\<rparr>) s0 ws =
       Inr (if ws = [] then True else last ws, s) \<and>
     auto_slider (c\<lparr>conf_slider_auto := Some a, conf_slider_time := Some tm\<rparr>) s0 (ws @ [w]) =
       Inr (w, s') \<and>
     (if a \<or> (if ws = [] then True else last ws)
      then idx s' = (idx s + 1) mod 3 \<and>
           actions s' = actions s @ [Show (gen_pages (idx s')), Clear, Wait tm]
      else idx s' = idx s \<and>
           actions s' = actions s @ [Show (gen_pages (idx s)), Clear, Wait tm]) \<and>
     slide_event s' = w"
proof -
  obtain s where s: "auto_slider_loop (c\<lparr>conf_slider_auto := Some a, conf_slider_time := Some tm\<rparr>)
      (True, s0) ws = Inr (if ws = [] then True else last ws, s)"
    using auto_slider_loop_returns by blast
  show ?thesis
    unfolding auto_slider_def auto_slider_loop_snoc s
    by (simp add: auto_slider_body_conf)
qed

text \<open>
  C3 as stated fails on the first iteration: with auto-rotation off and no signal at all,
  the index still moves from -1 to 0 and the first page is shown.
\<close>

theorem auto_slider_first_pass_counterexample:
  "conf_slider_auto (default_conf\<lparr>conf_slider_auto := Some False\<rparr>) = Some False \<and>
   auto_slider (default_conf\<lparr>conf_slider_auto := Some False\<rparr>) oled_init [False] =
     Inr (False, \<lparr>idx = 0, slide_event = False, actions = [Show SystemPage, Clear, Wait 10]\<rparr>) \<and>
   idx oled_init \<noteq> 0"
  by (simp add: auto_slider_def auto_slider_body_def get_sleep_time_def slider_def refresh_def
        event_clear_def event_wait_def Let_def default_conf_def oled_init_def gen_pages_def)

text \<open>
  C10. The first iteration of \<open>auto_slider\<close>, from index -1: whatever the auto-rotation
  setting, the state of the event and the outcome of the wait, it moves the index to 0
  and shows page 0, then clears the event and waits; every longer run starts with this
  iteration.
\<close>

theorem auto_slider_first_iteration:
  "auto_slider (c\<lparr>conf_slider_auto := Some a, conf_slider_time := Some tm\<rparr>)
     (oled_init\<lparr>slide_event := ev\<rparr>) [w] =
     Inr (w, \<lparr>idx = 0, slide_event = w, actions = [Show (gen_pages 0), Clear, Wait tm]\<rparr>) \<and>
   auto_slider (c\<lparr>conf_slider_auto := Some a, conf_slider_time := Some tm\<rparr>)
     (oled_init\<lparr>slide_event := ev\<rparr>) (w # ws) =
     auto_slider_loop (c\<lparr>conf_slider_auto := Some a, conf_slider_time := Some tm\<rparr>)
       (w, \<lparr>idx = 0, slide_event = w, actions = [Show (gen_pages 0), Clear, Wait tm]\<rparr>) ws \<and>
   gen_pages 0 = SystemPage \<and> idx oled_init = - 1"
  by (simp add: auto_slider_def auto_slider_body_conf oled_init_def gen_pages_def)

end
